theory Spec2Isabelle
  imports Complex_Main
begin

section \<open>JavaScript numbers\<close>

text \<open>
  Every number of the server (\<^verbatim>\<open>server.js\<close>) is an IEEE 754 double: \<^verbatim>\<open>NaN\<close>, an infinity, or
  a finite value, kept here as the rational it denotes. The two zeros are one value: the
  server never divides, and comparison, truthiness and \<^verbatim>\<open>JSON.stringify\<close> do not tell them
  apart. The result of an arithmetic operation on finite values is the exact result rounded
  to the nearest double, ties to the even mantissa (\<open>fl\<close>), so that every number the
  server computes is a double whatever rationals it is given.
\<close>

datatype number = NaN | PInf | NInf | Fin rat

text \<open>The number of binary digits of a positive integer.\<close>

function bits :: "int \<Rightarrow> int" where
  "bits n = (if n \<le> 0 then 0 else 1 + bits (n div 2))"
  by pat_completeness auto
termination
  by (relation "measure nat") auto

declare bits.simps [simp del]

definition pow2 :: "int \<Rightarrow> rat" where
  "pow2 e = (if 0 \<le> e then 2 ^ nat e else 1 / 2 ^ nat (- e))"

text \<open>The exponent \<open>e\<close> with \<open>2 ^ e \<le> a < 2 ^ (e + 1)\<close>, for \<open>a > 0\<close>.\<close>

definition ilog2 :: "rat \<Rightarrow> int" where
  "ilog2 a = (if 1 \<le> a then bits \<lfloor>a\<rfloor> - 1 else - bits (\<lceil>1 / a\<rceil> - 1))"

definition round_even :: "rat \<Rightarrow> int" where
  "round_even r =
     (let f = \<lfloor>r\<rfloor>; d = r - of_int f
      in if d < 1 / 2 then f else if 1 / 2 < d then f + 1 else if even f then f else f + 1)"

text \<open>
  Rounding to binary64: 53 bits of mantissa, the least unit \<open>2 ^ -1074\<close>, and an infinity
  from \<open>2 ^ 1024 - 2 ^ 970\<close> on (half a unit above the largest double).
\<close>

definition fl :: "rat \<Rightarrow> number" where
  "fl x =
     (if x = 0 then Fin 0
      else if 2 ^ 1024 - 2 ^ 970 \<le> \<bar>x\<bar> then (if 0 < x then PInf else NInf)
      else
        let u = max (ilog2 \<bar>x\<bar> - 52) (- 1074);
            y = of_int (round_even (\<bar>x\<bar> / pow2 u)) * pow2 u
        in Fin (if 0 < x then y else - y))"

fun num_neg :: "number \<Rightarrow> number" where
  "num_neg NaN = NaN"
| "num_neg PInf = NInf"
| "num_neg NInf = PInf"
| "num_neg (Fin a) = Fin (- a)"

text \<open>\<^verbatim>\<open>x + y\<close>, \<^verbatim>\<open>x - y\<close> and \<^verbatim>\<open>x * y\<close> on numbers.\<close>

fun num_add :: "number \<Rightarrow> number \<Rightarrow> number" where
  "num_add NaN y = NaN"
| "num_add x NaN = NaN"
| "num_add (Fin a) (Fin b) = fl (a + b)"
| "num_add PInf NInf = NaN"
| "num_add NInf PInf = NaN"
| "num_add PInf y = PInf"
| "num_add NInf y = NInf"
| "num_add (Fin a) y = y"

definition num_sub :: "number \<Rightarrow> number \<Rightarrow> number" where
  "num_sub x y = num_add x (num_neg y)"

fun num_mul :: "number \<Rightarrow> number \<Rightarrow> number" where
  "num_mul NaN y = NaN"
| "num_mul x NaN = NaN"
| "num_mul (Fin a) (Fin b) = fl (a * b)"
| "num_mul (Fin a) y = (if a = 0 then NaN else if 0 < a then y else num_neg y)"
| "num_mul x (Fin b) = (if b = 0 then NaN else if 0 < b then x else num_neg x)"
| "num_mul PInf y = y"
| "num_mul NInf y = num_neg y"

text \<open>\<^verbatim>\<open>x <= y\<close> and \<^verbatim>\<open>x < y\<close>: false as soon as one side is \<^verbatim>\<open>NaN\<close>.\<close>

fun num_le :: "number \<Rightarrow> number \<Rightarrow> bool" where
  "num_le NaN y = False"
| "num_le x NaN = False"
| "num_le (Fin a) (Fin b) = (a \<le> b)"
| "num_le NInf y = True"
| "num_le x PInf = True"
| "num_le x y = False"

fun num_less :: "number \<Rightarrow> number \<Rightarrow> bool" where
  "num_less NaN y = False"
| "num_less x NaN = False"
| "num_less (Fin a) (Fin b) = (a < b)"
| "num_less PInf y = False"
| "num_less x NInf = False"
| "num_less x y = True"

text \<open>Truthiness of a number: all but 0 and \<^verbatim>\<open>NaN\<close>.\<close>

fun num_truthy :: "number \<Rightarrow> bool" where
  "num_truthy NaN = False"
| "num_truthy (Fin a) = (a \<noteq> 0)"
| "num_truthy x = True"

text \<open>
  \<^verbatim>\<open>Date.now()\<close> returns a whole number of milliseconds, of magnitude at most \<open>8.64e15\<close>
  and so a double.
\<close>

definition ms :: "int \<Rightarrow> number" where
  "ms t = Fin (of_int t)"

section \<open>Values of the request bodies\<close>

text \<open>
  The server receives JSON bodies through \<^verbatim>\<open>express.json()\<close> and keeps the parsed values as
  they are. A parsed object is an association list whose first binding of a key is the
  property the object holds. An absent property reads as \<^verbatim>\<open>undefined\<close>, which is
  \<open>None\<close> of \<open>json option\<close>.
\<close>

datatype json =
    JNull
  | JBool bool
  | JNum number
  | JStr string
  | JArr "json list"
  | JObj "(string \<times> json) list"

text \<open>JavaScript's truthiness, as \<^verbatim>\<open>if (v)\<close>, \<^verbatim>\<open>!v\<close>, \<^verbatim>\<open>v || w\<close> and \<^verbatim>\<open>filter\<close> read a value.\<close>

fun truthy :: "json \<Rightarrow> bool" where
  "truthy JNull = False"
| "truthy (JBool b) = b"
| "truthy (JNum n) = num_truthy n"
| "truthy (JStr s) = (s \<noteq> [])"
| "truthy (JArr xs) = True"
| "truthy (JObj props) = True"

fun truthy_opt :: "json option \<Rightarrow> bool" where
  "truthy_opt None = False"
| "truthy_opt (Some v) = truthy v"

text \<open>
  \<^verbatim>\<open>a || b\<close> on the numeric and string fields of a body. The fields \<^verbatim>\<open>duration\<close>,
  \<^verbatim>\<open>hours\<close>, \<^verbatim>\<open>minutes\<close>, \<^verbatim>\<open>seconds\<close> (numbers) and \<^verbatim>\<open>resetBy\<close> (a string) are taken
  at the type the interface gives them; \<open>None\<close> is the absent (or null) field. A JSON
  number may be any double, the infinities included (\<^verbatim>\<open>1e999\<close> parses to \<^verbatim>\<open>Infinity\<close>).
\<close>

fun num_or :: "number option \<Rightarrow> number \<Rightarrow> number" where
  "num_or None b = b"
| "num_or (Some a) b = (if num_truthy a then a else b)"

fun str_or :: "string option \<Rightarrow> string \<Rightarrow> string" where
  "str_or None b = b"
| "str_or (Some a) b = (if a \<noteq> [] then a else b)"

text \<open>
  A template literal prints an absent value as \<^verbatim>\<open>undefined\<close> and a number as
  \<^verbatim>\<open>Number.prototype.toString\<close> does, which the handler below takes as \<open>toString\<close>.
\<close>

fun show_field :: "(number \<Rightarrow> string) \<Rightarrow> number option \<Rightarrow> string" where
  "show_field toString None = ''undefined''"
| "show_field toString (Some x) = toString x"

section \<open>The state of the server\<close>

record safetyState =
  deadline :: "number option"
  timerDuration :: number
  contacts :: "json list"
  alertSentForCurrentDeadline :: bool
  lastResetBy :: "string option"

definition initialState :: safetyState where
  "initialState =
     \<lparr> deadline = None,
       timerDuration = Fin (24 * 60 * 60 * 1000),
       contacts = [],
       alertSentForCurrentDeadline = False,
       lastResetBy = None \<rparr>"

text \<open>The callback of \<^verbatim>\<open>app.listen\<close> arms the first deadline.\<close>

definition listen :: "int \<Rightarrow> safetyState \<Rightarrow> safetyState" where
  "listen now st = st\<lparr>deadline := Some (num_add (ms now) (timerDuration st))\<rparr>"

text \<open>
  \<^verbatim>\<open>if (safetyState.deadline)\<close> holds when the deadline is set and is a truthy number:
  below, the case \<open>Some d\<close> with \<open>num_truthy d\<close>.
\<close>

datatype response = Response (status: nat) (body: json)

definition json_of_deadline :: "number option \<Rightarrow> json" where
  "json_of_deadline d = (case d of None \<Rightarrow> JNull | Some t \<Rightarrow> JNum t)"

section \<open>The request handlers\<close>

text \<open>
  Each handler runs to completion on the single thread of the event loop, so it is one
  function from the state before to the response and the state after. The response is what
  the handler hands to \<^verbatim>\<open>res.json\<close>. \<open>now\<close> is what \<^verbatim>\<open>Date.now()\<close> returns; a handler that
  reads the clock twice takes both readings.
\<close>

definition reset_timer ::
  "int \<Rightarrow> number option \<Rightarrow> string option \<Rightarrow> safetyState \<Rightarrow> response \<times> safetyState" where
  "reset_timer now duration resetBy st =
     (let effectiveDuration = num_or duration (timerDuration st);
          st' = st\<lparr> deadline := Some (num_add (ms now) effectiveDuration),
                    alertSentForCurrentDeadline := False,
                    lastResetBy := Some (str_or resetBy ''Anonymous'') \<rparr>
      in (Response 200 (JObj
            [(''success'', JBool True),
             (''deadline'', json_of_deadline (deadline st')),
             (''duration'', JNum effectiveDuration),
             (''message'', JStr ''Timer reset successfully'')]),
          st'))"

text \<open>\<^verbatim>\<open>Array.isArray(contacts)\<close> on the body's field, absent or of any JSON type.\<close>

fun isArray :: "json option \<Rightarrow> bool" where
  "isArray (Some (JArr xs)) = True"
| "isArray _ = False"

fun elements :: "json option \<Rightarrow> json list" where
  "elements (Some (JArr xs)) = xs"
| "elements _ = []"

definition post_contacts :: "json option \<Rightarrow> safetyState \<Rightarrow> response \<times> safetyState" where
  "post_contacts c st =
     (if \<not> isArray c then
        (Response 400 (JObj [(''error'', JStr ''Contacts must be an array'')]), st)
      else
        (Response 200 (JObj [(''success'', JBool True),
                             (''count'', JNum (Fin (of_nat (length (elements c)))))]),
         st\<lparr>contacts := elements c\<rparr>))"

text \<open>
  \<^verbatim>\<open>POST /api/timer-duration\<close>. The handler stores the new duration first and computes
  \<^verbatim>\<open>timeElapsed\<close> from the stored one afterwards; it reads the clock once for
  \<^verbatim>\<open>timeElapsed\<close> (\<open>now1\<close>) and once more for the new deadline (\<open>now2\<close>). The guard is
  \<^verbatim>\<open>duration <= 0\<close>, which is false of \<^verbatim>\<open>NaN\<close>.
\<close>

definition computed_duration :: "number option \<Rightarrow> number option \<Rightarrow> number option \<Rightarrow> number" where
  "computed_duration hours minutes seconds =
     num_mul
       (num_add
          (num_add (num_mul (num_or hours (Fin 0)) (Fin 3600))
                   (num_mul (num_or minutes (Fin 0)) (Fin 60)))
          (num_or seconds (Fin 0)))
       (Fin 1000)"

definition timer_duration ::
  "(number \<Rightarrow> string) \<Rightarrow> int \<Rightarrow> int \<Rightarrow> number option \<Rightarrow> number option \<Rightarrow> number option
     \<Rightarrow> safetyState \<Rightarrow> response \<times> safetyState" where
  "timer_duration toString now1 now2 hours minutes seconds st =
     (let duration = computed_duration hours minutes seconds in
      if num_le duration (Fin 0) then
        (Response 400 (JObj [(''error'', JStr ''Duration must be greater than 0'')]), st)
      else
        let st1 = st\<lparr>timerDuration := duration\<rparr>;
            st2 = (case deadline st1 of
                     None \<Rightarrow> st1
                   | Some d \<Rightarrow>
                       if num_truthy d then
                         let timeElapsed = num_sub (ms now1) (num_sub d (timerDuration st1))
                         in st1\<lparr>deadline :=
                                  Some (num_sub (num_add (ms now2) (timerDuration st1)) timeElapsed)\<rparr>
                       else st1)
        in (Response 200 (JObj
              [(''success'', JBool True),
               (''duration'', JNum (timerDuration st2)),
               (''message'',
                JStr (''Timer duration set to '' @ show_field toString hours @ ''h ''
                        @ show_field toString minutes @ ''m ''
                        @ show_field toString seconds @ ''s''))]),
            st2))"

section \<open>The alert dispatcher\<close>

text \<open>
  \<^verbatim>\<open>bot.sendMessage(chatId, message)\<close> is the only call that leaves the process. Its
  promise resolves (\<open>True\<close>) or rejects (\<open>False\<close>); what decides that is the
  messaging service, whose state \<open>'n\<close> is left open. Every attempt is recorded with its
  outcome, in the order the loop makes them.
\<close>

type_synonym 'n notifier = "json option \<Rightarrow> string \<Rightarrow> 'n \<Rightarrow> bool \<times> 'n"

type_synonym attempt = "json option \<times> string \<times> bool"

datatype error = TypeError string

text \<open>
  \<^verbatim>\<open>c.chatId\<close> on an element of the contacts array: the property of an object, absent on
  a number, a string, a boolean and an array, and a \<^verbatim>\<open>TypeError\<close> on \<^verbatim>\<open>null\<close>.
\<close>

fun chatId :: "json \<Rightarrow> error + json option" where
  "chatId JNull =
     Inl (TypeError (''Cannot read properties of null (reading '' @ [CHR 0x27] @ ''chatId''
                       @ [CHR 0x27] @ '')''))"
| "chatId (JObj props) = Inr (map_of props ''chatId'')"
| "chatId other = Inr None"

text \<open>\<^verbatim>\<open>safetyState.contacts.filter((c) => c.chatId)\<close>, from left to right.\<close>

fun filter_chatId :: "json list \<Rightarrow> error + json list" where
  "filter_chatId [] = Inr []"
| "filter_chatId (c # cs) =
     (case chatId c of
        Inl e \<Rightarrow> Inl e
      | Inr v \<Rightarrow>
          (case filter_chatId cs of
             Inl e \<Rightarrow> Inl e
           | Inr kept \<Rightarrow> Inr (if truthy_opt v then c # kept else kept)))"

record alert_result =
  sent :: nat
  failed :: nat
  total :: "nat option"

text \<open>
  The loop \<^verbatim>\<open>for (const contact of contacts)\<close> with its counters. A rejected
  \<^verbatim>\<open>sendMessage\<close> is caught and counted; the loop goes on with the next contact. The
  service is taken to settle every call. (A \<^verbatim>\<open>null\<close> contact would throw in the
  \<^verbatim>\<open>try\<close> block and again in the \<^verbatim>\<open>catch\<close> block, which reads \<^verbatim>\<open>contact.name\<close>; the
  filter has thrown on it before.)
\<close>

fun send_each ::
  "'n notifier \<Rightarrow> string \<Rightarrow> json list \<Rightarrow> nat \<Rightarrow> nat \<Rightarrow> attempt list \<Rightarrow> 'n
     \<Rightarrow> error + (nat \<times> nat \<times> attempt list \<times> 'n)" where
  "send_each sendMessage message [] sent_n failed_n attempts w = Inr (sent_n, failed_n, attempts, w)"
| "send_each sendMessage message (contact # rest) sent_n failed_n attempts w =
     (case chatId contact of
        Inl e \<Rightarrow> Inl e
      | Inr dest \<Rightarrow>
          (case sendMessage dest message w of
             (True, w') \<Rightarrow>
               send_each sendMessage message rest (sent_n + 1) failed_n (attempts @ [(dest, message, True)]) w'
           | (False, w') \<Rightarrow>
               send_each sendMessage message rest sent_n (failed_n + 1) (attempts @ [(dest, message, False)]) w'))"

text \<open>
  \<^verbatim>\<open>sendAlertToContacts(message)\<close>: the settled promise (\<open>Inl\<close> when it rejects), the
  attempts made and the messaging service afterwards. The early return carries no
  \<^verbatim>\<open>total\<close> property: \<open>total = None\<close>.
\<close>

definition sendAlertToContacts ::
  "'n notifier \<Rightarrow> string \<Rightarrow> safetyState \<Rightarrow> 'n \<Rightarrow> (error + alert_result) \<times> attempt list \<times> 'n" where
  "sendAlertToContacts sendMessage message st w =
     (case filter_chatId (contacts st) of
        Inl e \<Rightarrow> (Inl e, [], w)
      | Inr cs \<Rightarrow>
          if length cs = 0 then (Inr \<lparr> sent = 0, failed = 0, total = None \<rparr>, [], w)
          else
            (case send_each sendMessage message cs 0 0 [] w of
               Inl e \<Rightarrow> (Inl e, [], w)
             | Inr (sent_n, failed_n, attempts, w') \<Rightarrow>
                 (Inr \<lparr> sent = sent_n, failed = failed_n, total = Some (length cs) \<rparr>, attempts, w')))"

section \<open>The server: tick, re-arm and the event loop\<close>

text \<open>The bytes of the fixed message, in UTF-8.\<close>

definition defaultMessage :: string where
  "defaultMessage =
     [CHR 0xF0, CHR 0x9F, CHR 0x9A, CHR 0xA8] @ '' SAFETY CHECK-IN MISSED!'' @
     [
      CHR 0x0A, CHR 0x0A, CHR 0xE1, CHR 0x88, CHR 0x9D, CHR 0xE1, CHR 0x8A, CHR 0x93, CHR 0xE1,
      CHR 0x88, CHR 0x8D, CHR 0xE1, CHR 0x89, CHR 0xA3, CHR 0xE1, CHR 0x89, CHR 0xB5, CHR 0x20,
      CHR 0xE1, CHR 0x89, CHR 0xBD, CHR 0xE1, CHR 0x8C, CHR 0x8D, CHR 0xE1, CHR 0x88, CHR 0xAD,
      CHR 0x20, CHR 0xE1, CHR 0x8A, CHR 0xA0, CHR 0xE1, CHR 0x8C, CHR 0x8B, CHR 0xE1, CHR 0x8C,
      CHR 0xA5, CHR 0xE1, CHR 0x88, CHR 0x9E, CHR 0xE1, CHR 0x8A, CHR 0x9D, CHR 0x20, CHR 0xE1,
      CHR 0x88, CHR 0x8A, CHR 0xE1, CHR 0x88, CHR 0x86, CHR 0xE1, CHR 0x8A, CHR 0x95, CHR 0x20,
      CHR 0xE1, CHR 0x88, CHR 0xB5, CHR 0xE1, CHR 0x88, CHR 0x88, CHR 0xE1, CHR 0x88, CHR 0x9A,
      CHR 0xE1, CHR 0x89, CHR 0xBD, CHR 0xE1, CHR 0x88, CHR 0x8D, CHR 0x20, CHR 0xE1, CHR 0x8A,
      CHR 0xA5, CHR 0xE1, CHR 0x89, CHR 0xA3, CHR 0xE1, CHR 0x8A, CHR 0xAD, CHR 0xE1, CHR 0x8B,
      CHR 0x8E, CHR 0xE1, CHR 0x8A, CHR 0x95, CHR 0x20, CHR 0xE1, CHR 0x8B, CHR 0xB0, CHR 0xE1,
      CHR 0x8B, CHR 0x8D, CHR 0xE1, CHR 0x88, CHR 0x88, CHR 0xE1, CHR 0x8B, CHR 0x8D, CHR 0x20,
      CHR 0xE1, CHR 0x8B, CHR 0xB0, CHR 0xE1, CHR 0x8A, CHR 0x85, CHR 0xE1, CHR 0x8A, CHR 0x95,
      CHR 0xE1, CHR 0x8A, CHR 0x90, CHR 0xE1, CHR 0x89, CHR 0xB4, CHR 0xE1, CHR 0x8A, CHR 0x95,
      CHR 0x20, CHR 0xE1, CHR 0x8B, CHR 0xAB, CHR 0xE1, CHR 0x88, CHR 0xA8, CHR 0xE1, CHR 0x8C,
      CHR 0x8B, CHR 0xE1, CHR 0x8C, CHR 0x8D, CHR 0xE1, CHR 0x8C, CHR 0xA1, CHR 0xE1, CHR 0x8D,
      CHR 0xA1, CHR 0xE1, CHR 0x8D, CHR 0xA1]"

text \<open>
  Beside \<^verbatim>\<open>safetyState\<close> the server holds the messaging service, the calls of
  \<^verbatim>\<open>sendAlertToContacts\<close> made so far (message, settled result, attempts) and the number
  of \<^verbatim>\<open>setTimeout\<close> callbacks that are scheduled and have not run yet.
\<close>

type_synonym dispatch = "string \<times> (error + alert_result) \<times> attempt list"

record 'n server =
  state :: safetyState
  world :: 'n
  dispatched :: "dispatch list"
  timeouts :: nat

text \<open>
  \<^verbatim>\<open>checkTimer()\<close>. The flag is written before \<^verbatim>\<open>sendAlertToContacts\<close> is called; the
  dispatcher filters \<^verbatim>\<open>safetyState.contacts\<close> before its first \<^verbatim>\<open>await\<close>, so it works on
  the contacts of this moment whatever handler runs while it waits, and its attempts are
  accounted to this step. When the promise resolves, \<^verbatim>\<open>then\<close> schedules the re-arm; when
  it rejects, nobody handles the rejection and nothing is scheduled.
\<close>

definition checkTimer :: "'n notifier \<Rightarrow> int \<Rightarrow> 'n server \<Rightarrow> 'n server" where
  "checkTimer sendMessage now sv =
     (case deadline (state sv) of
        None \<Rightarrow> sv
      | Some d \<Rightarrow>
          if \<not> num_truthy d then sv
          else if num_le d (ms now) \<and> \<not> alertSentForCurrentDeadline (state sv) then
            (let st' = (state sv)\<lparr>alertSentForCurrentDeadline := True\<rparr>;
                 (result, attempts, w') = sendAlertToContacts sendMessage defaultMessage st' (world sv)
             in sv\<lparr> state := st',
                    world := w',
                    dispatched := dispatched sv @ [(defaultMessage, result, attempts)],
                    timeouts := timeouts sv + (case result of Inl e \<Rightarrow> 0 | Inr r \<Rightarrow> 1) \<rparr>)
          else sv)"

text \<open>The callback of \<^verbatim>\<open>setTimeout\<close>, run at \<open>now\<close>.\<close>

definition rearm :: "int \<Rightarrow> safetyState \<Rightarrow> safetyState" where
  "rearm now st =
     st\<lparr> deadline := Some (num_add (ms now) (timerDuration st)),
         alertSentForCurrentDeadline := False \<rparr>"

text \<open>\<^verbatim>\<open>POST /api/send-alert\<close>: the dispatcher on the current contacts, the timer untouched.\<close>

definition send_alert ::
  "'n notifier \<Rightarrow> string option \<Rightarrow> 'n server \<Rightarrow> response \<times> 'n server" where
  "send_alert sendMessage message sv =
     (case message of
        None \<Rightarrow> (Response 400 (JObj [(''error'', JStr ''Message is required'')]), sv)
      | Some m \<Rightarrow>
          if m = [] then (Response 400 (JObj [(''error'', JStr ''Message is required'')]), sv)
          else
            (let (result, attempts, w') = sendAlertToContacts sendMessage m (state sv) (world sv);
                 sv' = sv\<lparr> world := w', dispatched := dispatched sv @ [(m, result, attempts)] \<rparr>
             in case result of
                  Inl (TypeError msg) \<Rightarrow> (Response 500 (JObj [(''error'', JStr msg)]), sv')
                | Inr r \<Rightarrow>
                    (Response 200 (JObj [(''success'', JBool True), (''message'', JStr ''Alert sent'')]),
                     sv')))"

text \<open>
  What the event loop runs, one callback at a time: the requests, the tick of
  \<^verbatim>\<open>setInterval\<close> and the re-arm of \<^verbatim>\<open>setTimeout\<close>, each with the clock readings it
  makes. A re-arm runs only when one is scheduled. \<open>toString\<close> is the rendering of numbers
  in the text of a response.
\<close>

datatype event =
    ResetTimer int "number option" "string option"
  | PostContacts "json option"
  | TimerDuration int int "number option" "number option" "number option"
  | SendAlert "string option"
  | CheckTimer int
  | Rearm int

fun step :: "'n notifier \<Rightarrow> (number \<Rightarrow> string) \<Rightarrow> event \<Rightarrow> 'n server \<Rightarrow> 'n server" where
  "step sendMessage toString (ResetTimer now duration resetBy) sv =
     sv\<lparr>state := snd (reset_timer now duration resetBy (state sv))\<rparr>"
| "step sendMessage toString (PostContacts c) sv = sv\<lparr>state := snd (post_contacts c (state sv))\<rparr>"
| "step sendMessage toString (TimerDuration now1 now2 hours minutes seconds) sv =
     sv\<lparr>state := snd (timer_duration toString now1 now2 hours minutes seconds (state sv))\<rparr>"
| "step sendMessage toString (SendAlert message) sv = snd (send_alert sendMessage message sv)"
| "step sendMessage toString (CheckTimer now) sv = checkTimer sendMessage now sv"
| "step sendMessage toString (Rearm now) sv =
     (if timeouts sv = 0 then sv
      else sv\<lparr>state := rearm now (state sv), timeouts := timeouts sv - 1\<rparr>)"

fun run ::
  "'n notifier \<Rightarrow> (number \<Rightarrow> string) \<Rightarrow> event list \<Rightarrow> 'n server \<Rightarrow> 'n server" where
  "run sendMessage toString [] sv = sv"
| "run sendMessage toString (e # es) sv =
     run sendMessage toString es (step sendMessage toString e sv)"

text \<open>The server once it listens, at \<open>now\<close>, with the messaging service in \<open>w\<close>.\<close>

definition boot :: "int \<Rightarrow> 'n \<Rightarrow> 'n server" where
  "boot now w = \<lparr> state = listen now initialState, world = w, dispatched = [], timeouts = 0 \<rparr>"

section \<open>Notions the properties are stated with\<close>







fun recipient :: "attempt \<Rightarrow> json option" where
  "recipient (dest, message, ok) = dest"

fun text_sent :: "attempt \<Rightarrow> string" where
  "text_sent (dest, message, ok) = message"

subsection \<open>Concrete servers and contacts\<close>


definition always_delivers :: "unit notifier" where
  "always_delivers dest message w = (True, w)"

definition delivers_to_42 :: "unit notifier" where
  "delivers_to_42 dest message w = (dest = Some (JStr ''42''), w)"

definition contact_without_id :: json where
  "contact_without_id = JObj [(''name'', JStr ''Abel'')]"


definition contact_42 :: json where
  "contact_42 = JObj [(''name'', JStr ''Chala''), (''chatId'', JStr ''42'')]"

definition contact_7 :: json where
  "contact_7 = JObj [(''name'', JStr ''Dawit''), (''chatId'', JNum (Fin 7))]"

text \<open>A timer armed for one hour, with the deadline at 10000000 ms.\<close>

definition armed_state :: safetyState where
  "armed_state =
     \<lparr> deadline = Some (Fin 10000000),
       timerDuration = Fin 3600000,
       contacts = [],
       alertSentForCurrentDeadline = False,
       lastResetBy = None \<rparr>"

definition three_contacts :: safetyState where
  "three_contacts = armed_state\<lparr>contacts := [contact_without_id, contact_42, contact_7]\<rparr>"

definition armed_server :: "unit server" where
  "armed_server = \<lparr> state = armed_state, world = (), dispatched = [], timeouts = 0 \<rparr>"

text \<open>The same server with three contacts, one of them without a \<^verbatim>\<open>chatId\<close>.\<close>

text \<open>A rendering of numbers that prints nothing.\<close>

definition no_text :: "number \<Rightarrow> string" where
  "no_text x = []"

definition expired_server :: "unit server" where
  "expired_server = armed_server\<lparr>state := three_contacts\<rparr>"

text \<open>The double that \<^verbatim>\<open>JSON.parse\<close> reads from \<^verbatim>\<open>1e308\<close>.\<close>

definition double_1e308 :: rat where
  "double_1e308 =
     100000000000000001097906362944045541740492309677311846336810682903157585404911491537163328978494688899061249669721172515611590283743140088328307009198146046031271664502933027185697489699588559043338384466165001178426897626212945177628091195786707458122783970171784415105291802893207873272974885715430223118336"

section \<open>Evaluating numbers\<close>

lemma bits_numeral: "bits (numeral k) = 1 + bits (numeral k div 2)"
  by (subst bits.simps) simp

lemma bits_0: "bits 0 = 0"
  by (simp add: bits.simps)

lemma bits_1: "bits 1 = 1"
  by (simp add: bits.simps)

lemma floor_rat_numeral_div: "\<lfloor>numeral a / numeral b :: rat\<rfloor> = numeral a div numeral b"
  by (metis floor_divide_of_int_eq of_int_numeral)

lemma floor_rat_one_div: "\<lfloor>1 / numeral b :: rat\<rfloor> = 1 div numeral b"
  by (metis floor_divide_of_int_eq of_int_1 of_int_numeral)

lemma ceiling_rat_numeral_div: "\<lceil>numeral a / numeral b :: rat\<rceil> = - (- numeral a div numeral b)"
  by (metis ceiling_divide_eq_div of_int_numeral)

lemma ceiling_rat_one_div: "\<lceil>1 / numeral b :: rat\<rceil> = - (- 1 div numeral b)"
  by (metis ceiling_divide_eq_div of_int_1 of_int_numeral)

lemmas number_eval =
  fl_def ilog2_def round_even_def pow2_def Let_def bits_numeral bits_0 bits_1
  floor_rat_numeral_div floor_rat_one_div ceiling_rat_numeral_div ceiling_rat_one_div
  num_sub_def ms_def

text \<open>The rounding at some doubles that are known: a tenth, two ties, and an overflow.\<close>

lemma fl_known_values:
  "fl (1 / 10) = Fin (3602879701896397 / 36028797018963968)"
  "fl (2 ^ 53 + 1) = Fin (2 ^ 53)"
  "fl (2 ^ 53 + 3) = Fin (2 ^ 53 + 4)"
  "fl (- 8999999999990000000) = Fin (- 8999999999989999616)"
  "fl (10 ^ 308 * 3600) = PInf"
  by (simp_all add: number_eval)

section \<open>Properties of the dispatcher\<close>









text \<open>
  C3 at a list with no \<^verbatim>\<open>chatId\<close>, and at the empty list: nothing is sent, and the
  record returned is \<^verbatim>\<open>{ sent: 0, failed: 0 }\<close>, with no \<^verbatim>\<open>total\<close> (the return after
  the loop sets it, and \<^verbatim>\<open>checkTimer\<close> reads it).
\<close>

theorem sendAlertToContacts_no_eligible_omits_total:
  "sendAlertToContacts always_delivers ''help'' (armed_state\<lparr>contacts := [contact_without_id]\<rparr>) ()
     = (Inr \<lparr> sent = 0, failed = 0, total = None \<rparr>, [], ())
   \<and> sendAlertToContacts always_delivers ''help'' (armed_state\<lparr>contacts := []\<rparr>) ()
     = (Inr \<lparr> sent = 0, failed = 0, total = None \<rparr>, [], ())"
  by (simp add: sendAlertToContacts_def armed_state_def contact_without_id_def)

subsection \<open>Truthiness of the destination\<close>







section \<open>Properties of the request handlers\<close>

text \<open>
  C8. A \<^verbatim>\<open>POST /api/contacts\<close> whose \<^verbatim>\<open>contacts\<close> field is not an array (absent, or a
  value of any other JSON type) is answered with status 400 and leaves the state as it was;
  when the field is an array, empty or not, the stored contacts become exactly that array
  and the answer reports success with the length of the array as \<^verbatim>\<open>count\<close>.
\<close>

theorem post_contacts_array_or_error:
  "(\<not> isArray c \<longrightarrow>
      post_contacts c st =
        (Response 400 (JObj [(''error'', JStr ''Contacts must be an array'')]), st))
   \<and> post_contacts (Some (JArr xs)) st =
        (Response 200 (JObj [(''success'', JBool True), (''count'', JNum (Fin (of_nat (length xs))))]),
         st\<lparr>contacts := xs\<rparr>)
   \<and> (isArray c \<longleftrightarrow> (\<exists>ys. c = Some (JArr ys)))"
proof -
  have "isArray c \<longleftrightarrow> (\<exists>ys. c = Some (JArr ys))"
    by (cases c rule: isArray.cases) simp_all
  then show ?thesis by (simp add: post_contacts_def)
qed

text \<open>An object and an absent field are rejected; the empty array replaces three contacts.\<close>

theorem post_contacts_array_or_error_witness:
  "\<not> isArray (Some (JObj [(''0'', contact_42)]))
   \<and> post_contacts (Some (JObj [(''0'', contact_42)])) three_contacts =
        (Response 400 (JObj [(''error'', JStr ''Contacts must be an array'')]), three_contacts)
   \<and> \<not> isArray None
   \<and> post_contacts None three_contacts =
        (Response 400 (JObj [(''error'', JStr ''Contacts must be an array'')]), three_contacts)
   \<and> post_contacts (Some (JArr [])) three_contacts =
        (Response 200 (JObj [(''success'', JBool True), (''count'', JNum (Fin 0))]),
         three_contacts\<lparr>contacts := []\<rparr>)"
  using post_contacts_array_or_error [where c = "Some (JObj [(''0'', contact_42)])"
      and st = three_contacts and xs = "[]"]
    post_contacts_array_or_error [where c = None and st = three_contacts and xs = "[]"]
  by simp

text \<open>
  C5 at a reset with the duration -5000 at \<open>now = 9000000\<close>: the handler takes the
  negative duration, so the deadline is 8995000, before \<open>now\<close>, where the configured hour
  gives 12600000; the next tick sends the alert. The handler of the duration rejects what is
  \<open>\<le> 0\<close>; this one has no such check.
\<close>

theorem reset_timer_negative_duration:
  "deadline (snd (reset_timer 9000000 (Some (Fin (- 5000))) (Some ''Alice'') armed_state)) =
     Some (Fin 8995000)
   \<and> num_add (ms 9000000) (timerDuration armed_state) = Fin 12600000
   \<and> checkTimer always_delivers 9000001
        \<lparr> state = snd (reset_timer 9000000 (Some (Fin (- 5000))) (Some ''Alice'') armed_state),
          world = (), dispatched = [], timeouts = 0 \<rparr> =
      \<lparr> state = (snd (reset_timer 9000000 (Some (Fin (- 5000))) (Some ''Alice'') armed_state))
                  \<lparr>alertSentForCurrentDeadline := True\<rparr>,
        world = (),
        dispatched = [(defaultMessage, Inr \<lparr> sent = 0, failed = 0, total = None \<rparr>, [])],
        timeouts = 1 \<rparr>"
  by (simp add: reset_timer_def checkTimer_def sendAlertToContacts_def armed_state_def number_eval)

lemma two_hours: "computed_duration (Some (Fin 2)) None None = Fin 7200000"
  by (simp add: computed_duration_def number_eval)

text \<open>
  C1 at a timer armed for one hour (\<open>T1 = 3600000\<close>) with the deadline \<open>D = 10000000\<close>,
  when the duration is set to two hours (\<open>T2 = 7200000\<close>) at \<open>now = 8200000\<close>: the
  deadline stays at \<open>D\<close>, where \<open>now + T2 - (T1 - (D - now))\<close> is 13600000. The handler
  has stored \<open>T2\<close> before it computes the elapsed time from the stored duration.
\<close>

theorem timer_duration_keeps_old_deadline:
  "snd (timer_duration toString 8200000 8200000 (Some (Fin 2)) None None armed_state) =
     armed_state\<lparr>timerDuration := Fin 7200000\<rparr>
   \<and> deadline (snd (timer_duration toString 8200000 8200000 (Some (Fin 2)) None None armed_state)) =
       Some (Fin 10000000)
   \<and> num_sub (num_add (ms 8200000) (Fin 7200000))
        (num_sub (timerDuration armed_state) (num_sub (Fin 10000000) (ms 8200000))) = Fin 13600000"
  by (simp add: timer_duration_def two_hours armed_state_def number_eval)

lemma json_1e308: "fl (10 ^ 308) = Fin double_1e308"
  by (simp add: double_1e308_def number_eval)

lemma overflow_duration:
  "computed_duration (Some (Fin double_1e308)) (Some (Fin (- double_1e308))) None = NaN"
  by (simp add: computed_duration_def double_1e308_def fl_def)

text \<open>
  C6 at the body \<^verbatim>\<open>{hours: 1e308, minutes: -1e308}\<close>: the two products overflow to
  \<^verbatim>\<open>Infinity\<close> and \<^verbatim>\<open>-Infinity\<close>, their sum is \<^verbatim>\<open>NaN\<close>, the guard \<^verbatim>\<open>duration <= 0\<close>
  is false of it, and the handler answers 200 and stores \<^verbatim>\<open>NaN\<close> as
  \<^verbatim>\<open>timerDuration\<close> (and as the deadline), which is not greater than 0.
\<close>

theorem timer_duration_stores_NaN:
  "timer_duration toString 8200000 8200000
       (Some (Fin double_1e308)) (Some (Fin (- double_1e308))) None armed_state =
     (Response 200 (JObj
        [(''success'', JBool True),
         (''duration'', JNum NaN),
         (''message'',
          JStr (''Timer duration set to '' @ toString (Fin double_1e308) @ ''h ''
                  @ toString (Fin (- double_1e308)) @ ''m undefineds''))]),
      armed_state\<lparr>timerDuration := NaN, deadline := Some NaN\<rparr>)
   \<and> \<not> num_less (Fin 0) NaN
   \<and> num_less (Fin 0) (timerDuration armed_state)"
  by (simp add: timer_duration_def overflow_duration armed_state_def num_sub_def ms_def)

lemma positive_not_le: "num_less (Fin 0) d \<Longrightarrow> \<not> num_le d (Fin 0)"
  by (cases d) simp_all

text \<open>
  C9, as far as the code carries it. A \<^verbatim>\<open>POST /api/timer-duration\<close> with a positive
  computed duration is answered with success, stores that duration as
  \<^verbatim>\<open>timerDuration\<close>, and leaves the contacts, the alert flag and \<^verbatim>\<open>lastResetBy\<close> as they
  were; when the deadline is not set, or is not truthy, it is left as it was too, so that
  only \<^verbatim>\<open>timerDuration\<close> changes.
\<close>

theorem timer_duration_frame:
  assumes pos: "num_less (Fin 0) (computed_duration hours minutes seconds)"
  shows "status (fst (timer_duration toString now now' hours minutes seconds st)) = 200
       \<and> timerDuration (snd (timer_duration toString now now' hours minutes seconds st)) =
           computed_duration hours minutes seconds
       \<and> contacts (snd (timer_duration toString now now' hours minutes seconds st)) = contacts st
       \<and> alertSentForCurrentDeadline (snd (timer_duration toString now now' hours minutes seconds st)) =
           alertSentForCurrentDeadline st
       \<and> lastResetBy (snd (timer_duration toString now now' hours minutes seconds st)) =
           lastResetBy st
       \<and> (deadline st = None \<or> (\<exists>d. deadline st = Some d \<and> \<not> num_truthy d) \<longrightarrow>
            snd (timer_duration toString now now' hours minutes seconds st) =
              st\<lparr>timerDuration := computed_duration hours minutes seconds\<rparr>)"
  using positive_not_le [OF pos]
  by (auto simp add: timer_duration_def Let_def split: option.splits)

text \<open>Two hours set on a server that is armed, and on one that is not.\<close>

theorem timer_duration_frame_witness:
  "num_less (Fin 0) (computed_duration (Some (Fin 2)) None None)
   \<and> status (fst (timer_duration no_text 8200000 8200000 (Some (Fin 2)) None None armed_state)) = 200
   \<and> timerDuration (snd (timer_duration no_text 8200000 8200000 (Some (Fin 2)) None None armed_state)) =
       Fin 7200000
   \<and> alertSentForCurrentDeadline
       (snd (timer_duration no_text 8200000 8200000 (Some (Fin 2)) None None armed_state)) =
       alertSentForCurrentDeadline armed_state
   \<and> deadline initialState = None
   \<and> snd (timer_duration no_text 8200000 8200000 (Some (Fin 2)) None None initialState) =
       initialState\<lparr>timerDuration := Fin 7200000\<rparr>"
proof -
  have h1: "num_less (Fin 0) (computed_duration (Some (Fin 2)) None None)"
    by (simp add: two_hours)
  have h2: "deadline initialState = None"
    by (simp add: initialState_def)
  from timer_duration_frame [OF h1, where toString = no_text and now = 8200000
      and now' = 8200000 and st = armed_state]
    timer_duration_frame [OF h1, where toString = no_text and now = 8200000
      and now' = 8200000 and st = initialState] h1 h2
  show ?thesis by (simp add: two_hours)
qed

lemma large_duration: "computed_duration (Some (Fin 2500000000000)) None None = Fin 9000000000000000000"
  by (simp add: computed_duration_def number_eval)

text \<open>
  C9 as stated leaves the deadline numerically unchanged. With \<^verbatim>\<open>{hours: 2500000000000}\<close>
  and the same clock reading twice, the sums and differences of lines 99 and 100 are
  rounded, and the deadline moves from 10000000 to 10000384.
\<close>

theorem timer_duration_rounding_counterexample:
  "deadline armed_state = Some (Fin 10000000)
   \<and> num_less (Fin 0) (computed_duration (Some (Fin 2500000000000)) None None)
   \<and> deadline (snd (timer_duration no_text 8200000 8200000 (Some (Fin 2500000000000)) None None
                        armed_state)) = Some (Fin 10000384)"
  by (simp add: timer_duration_def large_duration armed_state_def number_eval)

section \<open>Properties of the tick and of the runs of the server\<close>

lemma run_append: "run sm rn (es @ fs) sv = run sm rn fs (run sm rn es sv)"
  by (induction es arbitrary: sv) simp_all

lemma checkTimer_noop:
  "alertSentForCurrentDeadline (state sv) \<Longrightarrow> checkTimer sm now sv = sv"
  by (simp add: checkTimer_def split: option.splits)

lemma checkTimer_fires:
  assumes "deadline (state sv) = Some D" and "num_truthy D" and "num_le D (ms now)"
    and "\<not> alertSentForCurrentDeadline (state sv)"
  shows "checkTimer sm now sv =
           (let st' = (state sv)\<lparr>alertSentForCurrentDeadline := True\<rparr>;
                d = sendAlertToContacts sm defaultMessage st' (world sv)
            in sv\<lparr> state := st',
                   world := snd (snd d),
                   dispatched := dispatched sv @ [(defaultMessage, fst d, fst (snd d))],
                   timeouts := timeouts sv + (case fst d of Inl e \<Rightarrow> 0 | Inr r \<Rightarrow> 1) \<rparr>)"
  using assms by (simp add: checkTimer_def Let_def split: prod.splits)

lemma checkTimer_state:
  "state (checkTimer sm now sv) = state sv
   \<or> state (checkTimer sm now sv) = (state sv)\<lparr>alertSentForCurrentDeadline := True\<rparr>"
  by (simp add: checkTimer_def Let_def split: option.splits prod.splits)

lemma ticks_after_alert:
  "alertSentForCurrentDeadline (state sv) \<Longrightarrow> run sm rn (map CheckTimer ts) sv = sv"
  by (induction ts) (simp_all add: checkTimer_noop)

lemma ticks_unset:
  "deadline (state sv) = Some D \<Longrightarrow> \<not> num_truthy D \<Longrightarrow> run sm rn (map CheckTimer ts) sv = sv"
  by (induction ts) (simp_all add: checkTimer_def)

lemma expired_tick:
  "checkTimer delivers_to_42 10000500 expired_server =
     \<lparr> state = three_contacts\<lparr>alertSentForCurrentDeadline := True\<rparr>,
       world = (),
       dispatched =
         [(defaultMessage, Inr \<lparr> sent = 1, failed = 1, total = Some 2 \<rparr>,
           [(Some (JStr ''42''), defaultMessage, True),
            (Some (JNum (Fin 7)), defaultMessage, False)])],
       timeouts = 1 \<rparr>"
  by (simp add: checkTimer_def expired_server_def armed_server_def three_contacts_def
      armed_state_def sendAlertToContacts_def contact_without_id_def contact_42_def contact_7_def
      delivers_to_42_def ms_def)

text \<open>
  C4. Take a deadline \<open>D\<close> and any sequence of ticks at or after \<open>D\<close>, with no other
  callback in between (so before the re-arm). The ticks call the dispatcher at most once
  and leave the deadline as it is. Once the flag is set every tick is a no-op. When the flag
  is not set (and \<open>D\<close> is truthy: \<^verbatim>\<open>checkTimer\<close> reads a deadline of 0 as no deadline),
  the first tick alone does everything: it sets the flag, and calls the dispatcher once, on
  the state in which the flag is already set.
\<close>

theorem checkTimer_fires_once:
  assumes D: "deadline (state sv) = Some D"
    and late: "\<forall>t \<in> set ts. num_le D (ms t)"
  shows "length (dispatched (run sendMessage toString (map CheckTimer ts) sv))
           \<le> length (dispatched sv) + 1
       \<and> deadline (state (run sendMessage toString (map CheckTimer ts) sv)) = Some D
       \<and> (alertSentForCurrentDeadline (state sv) \<longrightarrow>
            run sendMessage toString (map CheckTimer ts) sv = sv)
       \<and> (\<not> alertSentForCurrentDeadline (state sv) \<and> num_truthy D \<and> ts \<noteq> [] \<longrightarrow>
            run sendMessage toString (map CheckTimer ts) sv = checkTimer sendMessage (hd ts) sv
          \<and> state (run sendMessage toString (map CheckTimer ts) sv) =
              (state sv)\<lparr>alertSentForCurrentDeadline := True\<rparr>
          \<and> dispatched (run sendMessage toString (map CheckTimer ts) sv) =
              dispatched sv @
                [(defaultMessage,
                  fst (sendAlertToContacts sendMessage defaultMessage
                         ((state sv)\<lparr>alertSentForCurrentDeadline := True\<rparr>) (world sv)),
                  fst (snd (sendAlertToContacts sendMessage defaultMessage
                         ((state sv)\<lparr>alertSentForCurrentDeadline := True\<rparr>) (world sv))))])"
proof (cases "alertSentForCurrentDeadline (state sv) \<or> \<not> num_truthy D \<or> ts = []")
  case True
  then have "run sendMessage toString (map CheckTimer ts) sv = sv"
    using D by (auto simp add: ticks_after_alert ticks_unset)
  with True D show ?thesis by auto
next
  case False
  then obtain t rest where ts: "ts = t # rest" by (cases ts) auto
  let ?st' = "(state sv)\<lparr>alertSentForCurrentDeadline := True\<rparr>"
  let ?d = "sendAlertToContacts sendMessage defaultMessage ?st' (world sv)"
  from late ts have "num_le D (ms t)" by simp
  with False D have fire: "checkTimer sendMessage t sv =
      (let st' = ?st'; d = sendAlertToContacts sendMessage defaultMessage st' (world sv)
       in sv\<lparr> state := st',
              world := snd (snd d),
              dispatched := dispatched sv @ [(defaultMessage, fst d, fst (snd d))],
              timeouts := timeouts sv + (case fst d of Inl e \<Rightarrow> 0 | Inr r \<Rightarrow> 1) \<rparr>)"
    by (intro checkTimer_fires) auto
  have st: "state (checkTimer sendMessage t sv) = ?st'"
    by (simp add: fire Let_def)
  have disp: "dispatched (checkTimer sendMessage t sv) =
                dispatched sv @ [(defaultMessage, fst ?d, fst (snd ?d))]"
    by (simp add: fire Let_def)
  have flag: "alertSentForCurrentDeadline (state (checkTimer sendMessage t sv))"
    by (simp add: st)
  have "run sendMessage toString (map CheckTimer (t # rest)) sv = checkTimer sendMessage t sv"
    by (simp add: ticks_after_alert [OF flag])
  then have all: "run sendMessage toString (map CheckTimer ts) sv = checkTimer sendMessage t sv"
    and hd: "hd ts = t"
    by (simp_all only: ts list.sel)
  have 1: "length (dispatched (run sendMessage toString (map CheckTimer ts) sv))
             \<le> length (dispatched sv) + 1"
    by (simp only: all disp) simp
  have 2: "deadline (state (run sendMessage toString (map CheckTimer ts) sv)) = Some D"
    by (simp only: all st) (simp add: D)
  from False 1 2 show ?thesis
    by (simp only: all hd st disp) simp
qed

text \<open>Three ticks, 30 seconds apart, after the deadline of a server with three contacts.\<close>

theorem checkTimer_fires_once_witness:
  "deadline (state expired_server) = Some (Fin 10000000)
   \<and> num_le (Fin 10000000) (ms 10000500) \<and> num_le (Fin 10000000) (ms 10030500)
   \<and> num_le (Fin 10000000) (ms 10060500)
   \<and> length (dispatched (run delivers_to_42 no_text
         (map CheckTimer [10000500, 10030500, 10060500]) expired_server)) = 1
   \<and> run delivers_to_42 no_text (map CheckTimer [10000500, 10030500, 10060500]) expired_server =
       checkTimer delivers_to_42 10000500 expired_server
   \<and> alertSentForCurrentDeadline
       (state (run delivers_to_42 no_text (map CheckTimer [10000500, 10030500, 10060500])
          expired_server))"
proof -
  have h1: "deadline (state expired_server) = Some (Fin 10000000)"
    by (simp add: expired_server_def three_contacts_def armed_state_def)
  have h2: "\<forall>t \<in> set [10000500, 10030500, 10060500]. num_le (Fin 10000000) (ms t)"
    by (simp add: ms_def)
  have h3: "\<not> alertSentForCurrentDeadline (state expired_server)"
    by (simp add: expired_server_def three_contacts_def armed_state_def)
  have h4: "dispatched expired_server = []"
    by (simp add: expired_server_def armed_server_def)
  have h5: "num_truthy (Fin 10000000)" by simp
  have h6: "[10000500, 10030500, 10060500::int] \<noteq> []" by simp
  note once = checkTimer_fires_once [OF h1 h2, of delivers_to_42 no_text]
  from once h3 h5 h6
  have a: "run delivers_to_42 no_text (map CheckTimer [10000500, 10030500, 10060500]) expired_server =
             checkTimer delivers_to_42 (hd [10000500, 10030500, 10060500]) expired_server"
    and b: "dispatched (run delivers_to_42 no_text (map CheckTimer [10000500, 10030500, 10060500])
               expired_server) =
             dispatched expired_server @
               [(defaultMessage,
                 fst (sendAlertToContacts delivers_to_42 defaultMessage
                        ((state expired_server)\<lparr>alertSentForCurrentDeadline := True\<rparr>)
                        (world expired_server)),
                 fst (snd (sendAlertToContacts delivers_to_42 defaultMessage
                        ((state expired_server)\<lparr>alertSentForCurrentDeadline := True\<rparr>)
                        (world expired_server))))]"
    and c: "state (run delivers_to_42 no_text (map CheckTimer [10000500, 10030500, 10060500])
               expired_server) =
             (state expired_server)\<lparr>alertSentForCurrentDeadline := True\<rparr>"
    by blast+
  have len: "length (dispatched (run delivers_to_42 no_text
               (map CheckTimer [10000500, 10030500, 10060500]) expired_server)) = 1"
    by (simp only: b h4) simp
  have flg: "alertSentForCurrentDeadline
               (state (run delivers_to_42 no_text (map CheckTimer [10000500, 10030500, 10060500])
                  expired_server))"
    by (simp only: c) simp
  have a': "run delivers_to_42 no_text (map CheckTimer [10000500, 10030500, 10060500])
              expired_server = checkTimer delivers_to_42 10000500 expired_server"
    using a by (simp only: list.sel)
  have les: "num_le (Fin 10000000) (ms 10000500) \<and> num_le (Fin 10000000) (ms 10030500)
             \<and> num_le (Fin 10000000) (ms 10060500)"
    by (simp add: ms_def)
  from h1 les len a' flg show ?thesis by simp
qed

lemma send_alert_state: "state (snd (send_alert sm message sv)) = state sv"
  by (simp add: send_alert_def Let_def split: option.splits prod.splits sum.splits error.splits)

text \<open>
  C7, as the code has it. The handler of \<^verbatim>\<open>POST /api/reset-timer\<close> and the re-arm after an
  alert each assign the deadline and clear the alert flag in one callback: the state after
  either has the new deadline and the flag false, also at the end of any run of the server
  that ends with one of them. And the flag is raised only by a callback that leaves the
  deadline as it is.
\<close>

theorem deadline_assignment_clears_flag:
  "deadline (snd (reset_timer now duration resetBy st)) =
     Some (num_add (ms now) (num_or duration (timerDuration st)))
   \<and> \<not> alertSentForCurrentDeadline (snd (reset_timer now duration resetBy st))
   \<and> deadline (rearm now st) = Some (num_add (ms now) (timerDuration st))
   \<and> \<not> alertSentForCurrentDeadline (rearm now st)
   \<and> \<not> alertSentForCurrentDeadline
         (state (run sendMessage toString (es @ [ResetTimer now duration resetBy]) sv))
   \<and> (0 < timeouts (run sendMessage toString es sv) \<longrightarrow>
        deadline (state (run sendMessage toString (es @ [Rearm now]) sv)) =
          Some (num_add (ms now) (timerDuration (state (run sendMessage toString es sv))))
      \<and> \<not> alertSentForCurrentDeadline (state (run sendMessage toString (es @ [Rearm now]) sv)))
   \<and> (\<not> alertSentForCurrentDeadline (state sv)
        \<and> alertSentForCurrentDeadline (state (step sendMessage toString e sv)) \<longrightarrow>
        deadline (state (step sendMessage toString e sv)) = deadline (state sv))"
proof -
  have flag_set: "deadline (state (step sendMessage toString e sv)) = deadline (state sv)"
    if "\<not> alertSentForCurrentDeadline (state sv)"
      and "alertSentForCurrentDeadline (state (step sendMessage toString e sv))"
  proof (cases e)
    case (ResetTimer t d r)
    with that show ?thesis by (simp add: reset_timer_def Let_def)
  next
    case (PostContacts c)
    then show ?thesis by (simp add: post_contacts_def)
  next
    case (TimerDuration t1 t2 h m s)
    with that show ?thesis
      by (simp add: timer_duration_def Let_def split: if_splits option.splits)
  next
    case (SendAlert m)
    then show ?thesis by (simp add: send_alert_state)
  next
    case (CheckTimer t)
    with checkTimer_state [of sendMessage t sv] show ?thesis by auto
  next
    case (Rearm t)
    with that show ?thesis by (simp add: rearm_def split: if_splits)
  qed
  show ?thesis
    using flag_set by (simp add: run_append reset_timer_def rearm_def Let_def)
qed

text \<open>An expiring tick raises the flag and keeps the deadline; the re-arm then clears it.\<close>

theorem deadline_assignment_clears_flag_witness:
  "0 < timeouts (run delivers_to_42 no_text [CheckTimer 10000500] expired_server)
   \<and> deadline (state (run delivers_to_42 no_text ([CheckTimer 10000500] @ [Rearm 10001600])
        expired_server)) = Some (Fin 13601600)
   \<and> \<not> alertSentForCurrentDeadline
         (state (run delivers_to_42 no_text ([CheckTimer 10000500] @ [Rearm 10001600])
            expired_server))
   \<and> \<not> alertSentForCurrentDeadline (state expired_server)
   \<and> alertSentForCurrentDeadline
       (state (step delivers_to_42 no_text (CheckTimer 10000500) expired_server))
   \<and> deadline (state (step delivers_to_42 no_text (CheckTimer 10000500) expired_server)) =
       deadline (state expired_server)"
proof -
  have h1: "0 < timeouts (run delivers_to_42 no_text [CheckTimer 10000500] expired_server)"
    by (simp add: expired_tick)
  have h2: "\<not> alertSentForCurrentDeadline (state expired_server)"
    by (simp add: expired_server_def three_contacts_def armed_state_def)
  have h3: "alertSentForCurrentDeadline
              (state (step delivers_to_42 no_text (CheckTimer 10000500) expired_server))"
    by (simp add: expired_tick)
  have d: "timerDuration (state (run delivers_to_42 no_text [CheckTimer 10000500] expired_server)) =
             Fin 3600000"
    by (simp add: expired_tick three_contacts_def armed_state_def)
  note inst = deadline_assignment_clears_flag [where now = 10001600
      and sendMessage = delivers_to_42 and toString = no_text
      and es = "[CheckTimer 10000500]" and sv = expired_server and e = "CheckTimer 10000500"]
  from inst h1 have
    a: "deadline (state (run delivers_to_42 no_text ([CheckTimer 10000500] @ [Rearm 10001600])
          expired_server)) =
          Some (num_add (ms 10001600)
            (timerDuration (state (run delivers_to_42 no_text [CheckTimer 10000500] expired_server))))"
    and b: "\<not> alertSentForCurrentDeadline
         (state (run delivers_to_42 no_text ([CheckTimer 10000500] @ [Rearm 10001600])
            expired_server))"
    by blast+
  from inst h2 h3 have
    c: "deadline (state (step delivers_to_42 no_text (CheckTimer 10000500) expired_server)) =
          deadline (state expired_server)"
    by blast
  have a': "deadline (state (run delivers_to_42 no_text ([CheckTimer 10000500] @ [Rearm 10001600])
          expired_server)) = Some (Fin 13601600)"
    by (simp only: a d) (simp add: number_eval)
  from h1 a' b h2 h3 c show ?thesis by blast
qed

text \<open>
  C7 as stated concludes that no reachable state pairs a newly assigned deadline with the
  flag of the cycle before. From the start, a tick at the deadline raises the flag; a
  \<^verbatim>\<open>POST /api/timer-duration\<close> whose two clock readings are one millisecond apart then
  assigns the deadline 86400001, and the flag is still raised.
\<close>

theorem setDuration_moves_deadline_under_flag_counterexample:
  "deadline (state (run always_delivers no_text [CheckTimer 86400000] (boot 0 ()))) =
     Some (Fin 86400000)
   \<and> alertSentForCurrentDeadline
       (state (run always_delivers no_text [CheckTimer 86400000] (boot 0 ())))
   \<and> deadline (state (run always_delivers no_text
         [CheckTimer 86400000, TimerDuration 86400100 86400101 (Some (Fin 2)) None None]
         (boot 0 ()))) = Some (Fin 86400001)
   \<and> alertSentForCurrentDeadline (state (run always_delivers no_text
         [CheckTimer 86400000, TimerDuration 86400100 86400101 (Some (Fin 2)) None None]
         (boot 0 ())))"
  by (simp add: boot_def listen_def initialState_def checkTimer_def sendAlertToContacts_def
      timer_duration_def two_hours number_eval)

end
